theory Spec2Isabelle
  imports Complex_Main
begin

section \<open>Data model\<close>

text \<open>
  The embedding follows \<^verbatim>\<open>scraper/src/processors/rating_calculator.py\<close> and the
  \<^verbatim>\<open>ScrapedReview\<close> dataclass of \<^verbatim>\<open>scraper/src/scrapers/base.py\<close>.
  A Python float is a real number (a finite double; runs in which an operation yields
  NaN or an infinity are outside the model), a Python integer is an \<open>int\<close>, and a
  \<open>str\<close> is a \<open>string\<close> whose characters are the code points 0 to 255 (Latin-1
  text). The calculator is given twice: \<open>calculate_rating\<close> computes in exact real
  arithmetic, and \<open>calculate_rating_fp\<close> takes the operations of double arithmetic as
  parameters; the first is the second with exact operations
  (\<open>calculate_rating_fp_exact\<close>).
  The fields \<^verbatim>\<open>author\<close> and \<^verbatim>\<open>posted_at\<close> of a review are never read by the
  rating calculator and are left out.
\<close>

record ScrapedReview =
  source_type :: string
  source_url :: string
  source_name :: string
  content :: string
  upvotes :: "int option"
  comment_count :: "int option"

text \<open>
  A value as \<^verbatim>\<open>json.loads\<close> returns it. The analyzer stores whatever the parsed
  response holds, so the phrase lists of an analysis are lists of such values and not
  necessarily lists of strings.
\<close>

datatype json =
    JNull
  | JBool bool
  | JInt int
  | JFloat real
  | JStr string
  | JList "json list"
  | JDict "(string \<times> json) list"

record ReviewAnalysis =
  sentiment :: real
  pros :: "json list"
  cons :: "json list"
  credibility_weight :: real

text \<open>
  The fields \<^verbatim>\<open>pros\<close> and \<^verbatim>\<open>cons\<close> of \<^verbatim>\<open>ProductRating\<close> are named
  \<open>rating_pros\<close> and \<open>rating_cons\<close> here, since a record field name is global.
\<close>

record ProductRating =
  ai_rating :: int
  confidence :: real
  sentiment_score :: real
  reliability_score :: real
  value_score :: real
  popularity_score :: real
  sources_analyzed :: int
  rating_pros :: "string list"
  rating_cons :: "string list"
  summary :: string

datatype py_error =
  BackendError | JSONDecodeError | AttributeError | TypeError | ValueError | OverflowError

section \<open>External collaborators\<close>

text \<open>
  The text-understanding client, \<^verbatim>\<open>json.loads\<close> and \<^verbatim>\<open>float\<close> on a string are
  not code of the repository; they are parameters of the model. A request carries the
  values the prompt interpolates (the fixed wording of the prompt is elided). The client
  is indexed by the number of calls made before, so that it may answer the same request
  differently each time; \<open>None\<close> stands for any exception raised by the call or by
  reading \<^verbatim>\<open>response.content[0].text\<close>.
\<close>

datatype request =
    AnalyzeRequest string string
  | SummaryRequest string string string string int

record backend =
  messages_create :: "nat \<Rightarrow> request \<Rightarrow> string option"
  json_loads :: "string \<Rightarrow> json option"
  float_of_str :: "string \<Rightarrow> real option"

section \<open>Python built-ins used by the calculator\<close>

text \<open>
  The string methods on Latin-1 text. \<^verbatim>\<open>str.strip\<close> removes the characters that
  \<^verbatim>\<open>str.isspace\<close> accepts: 9 to 13, 28 to 32, 133 and 160. \<^verbatim>\<open>str.lower\<close> maps
  A to Z and the capital letters 192 to 222 (but the multiplication sign 215) to the
  letters 32 above; the sharp s (223) is a small letter and stays. \<^verbatim>\<open>str.capitalize\<close>
  title-cases the first character and lower-cases the rest; the title case of the sharp s
  is Ss. The upper case of 181 and of 255 lies outside Latin-1: on a string that starts
  with one of them \<open>py_capitalize\<close> is not Python's, and the theorems on the output
  lists are stated for ASCII phrases.
\<close>

definition py_is_space :: "char \<Rightarrow> bool" where
  "py_is_space c =
     (let n = (of_char c :: nat)
      in (9 \<le> n \<and> n \<le> 13) \<or> (28 \<le> n \<and> n \<le> 32) \<or> n = 133 \<or> n = 160)"

definition py_lower_char :: "char \<Rightarrow> char" where
  "py_lower_char c =
     (let n = (of_char c :: nat)
      in if (65 \<le> n \<and> n \<le> 90) \<or> (192 \<le> n \<and> n \<le> 222 \<and> n \<noteq> 215)
         then char_of (n + 32) else c)"

definition py_upper_char :: "char \<Rightarrow> char" where
  "py_upper_char c =
     (let n = (of_char c :: nat)
      in if (97 \<le> n \<and> n \<le> 122) \<or> (224 \<le> n \<and> n \<le> 254 \<and> n \<noteq> 247)
         then char_of (n - 32) else c)"

definition py_lower :: "string \<Rightarrow> string" where
  "py_lower s = map py_lower_char s"

definition py_strip :: "string \<Rightarrow> string" where
  "py_strip s = rev (dropWhile py_is_space (rev (dropWhile py_is_space s)))"

definition py_capitalize :: "string \<Rightarrow> string" where
  "py_capitalize s =
     (case s of
        [] \<Rightarrow> []
      | c # cs \<Rightarrow>
          (if c = char_of (223 :: nat) then ''Ss'' else [py_upper_char c]) @ map py_lower_char cs)"

fun py_join :: "string \<Rightarrow> string list \<Rightarrow> string" where
  "py_join sep [] = []"
| "py_join sep [x] = x"
| "py_join sep (x # y # ys) = x @ sep @ py_join sep (y # ys)"

fun str_nat :: "nat \<Rightarrow> string" where
  "str_nat n =
     (if n < 10 then [char_of (48 + n)] else str_nat (n div 10) @ [char_of (48 + n mod 10)])"

definition py_str :: "int \<Rightarrow> string" where
  "py_str n = (if n < 0 then CHR ''-'' # str_nat (nat (- n)) else str_nat (nat n))"

text \<open>\<^verbatim>\<open>int(x)\<close> on a float truncates toward zero.\<close>

definition py_int :: "real \<Rightarrow> int" where
  "py_int x = (if 0 \<le> x then \<lfloor>x\<rfloor> else \<lceil>x\<rceil>)"

text \<open>\<^verbatim>\<open>round(x, 2)\<close>: to two decimal places, a tie going to the even neighbour.\<close>

definition py_round2 :: "real \<Rightarrow> real" where
  "py_round2 x =
     (let y = x * 100; f = \<lfloor>y\<rfloor>; d = y - of_int f
      in of_int (if d < 1 / 2 then f else if 1 / 2 < d then f + 1
                 else if even f then f else f + 1) / 100)"

text \<open>
  \<^verbatim>\<open>float(v)\<close> on a parsed value: a float is itself, an integer converts unless it
  is too large for a double (OverflowError, from 2^1024 - 2^970 on), a boolean is 0 or 1,
  a string is parsed (or raises ValueError), anything else raises TypeError.
\<close>

definition py_float :: "backend \<Rightarrow> json \<Rightarrow> py_error + real" where
  "py_float be v =
     (case v of
        JFloat x \<Rightarrow> Inr x
      | JInt n \<Rightarrow>
          if \<bar>n\<bar> < 2 ^ 1024 - 2 ^ 970 then Inr (real_of_int n) else Inl OverflowError
      | JBool b \<Rightarrow> Inr (if b then 1 else 0)
      | JStr s \<Rightarrow> (case float_of_str be s of Some x \<Rightarrow> Inr x | None \<Rightarrow> Inl ValueError)
      | _ \<Rightarrow> Inl TypeError)"

text \<open>
  \<^verbatim>\<open>v[:3]\<close>: the first three elements of a list; on a string, its first three
  characters (iterating over them later yields one-character strings); any other value
  cannot be sliced and raises TypeError.
\<close>

definition slice3 :: "json \<Rightarrow> py_error + json list" where
  "slice3 v =
     (case v of
        JList xs \<Rightarrow> Inr (take 3 xs)
      | JStr s \<Rightarrow> Inr (map (\<lambda>c. JStr [c]) (take 3 s))
      | _ \<Rightarrow> Inl TypeError)"

text \<open>
  A \<^verbatim>\<open>dict\<close> keeps its keys in insertion order: an association list in which a new
  key goes to the end and an existing key keeps its place.
\<close>

definition dict_get :: "('k \<times> 'v) list \<Rightarrow> 'k \<Rightarrow> 'v \<Rightarrow> 'v" where
  "dict_get d k dflt = (case map_of d k of Some v \<Rightarrow> v | None \<Rightarrow> dflt)"

fun dict_set :: "('k \<times> 'v) list \<Rightarrow> 'k \<Rightarrow> 'v \<Rightarrow> ('k \<times> 'v) list" where
  "dict_set [] k v = [(k, v)]"
| "dict_set ((k', v') # d) k v = (if k' = k then (k, v) # d else (k', v') # dict_set d k v)"

text \<open>
  \<^verbatim>\<open>re.search(r"\{[^}]+\}", text, re.DOTALL)\<close>: the leftmost position holding an
  opening brace, then at least one character other than a closing brace, then a closing
  brace. The greedy run of non-closing characters is the longest one, and the match at a
  position exists exactly when that run is non-empty and is followed by a closing brace.
\<close>

definition brace_match :: "string \<Rightarrow> string option" where
  "brace_match s =
     (case s of
        [] \<Rightarrow> None
      | c # cs \<Rightarrow>
          if c = CHR ''{'' then
            (let body = takeWhile (\<lambda>x. x \<noteq> CHR ''}'') cs
             in if body \<noteq> [] \<and> length body < length cs then Some (c # body @ ''}'') else None)
          else None)"

fun re_search :: "string \<Rightarrow> string option" where
  "re_search [] = None"
| "re_search (c # cs) =
     (case brace_match (c # cs) of Some m \<Rightarrow> Some m | None \<Rightarrow> re_search cs)"

text \<open>
  \<^verbatim>\<open>statistics.stdev\<close>: the square root of the sample variance (the callers guard
  the case of fewer than two values, where the library raises).
\<close>

definition mean :: "real list \<Rightarrow> real" where
  "mean xs = sum_list xs / real (length xs)"

definition stdev :: "real list \<Rightarrow> real" where
  "stdev xs = sqrt (sum_list (map (\<lambda>x. (x - mean xs)\<^sup>2) xs) / real (length xs - 1))"

text \<open>
  \<^verbatim>\<open>sorted(items, key=lambda x: x[1], reverse=True)\<close>: the list is reversed, sorted
  stably by the key, and reversed again.
\<close>

definition sorted_by_count_desc :: "(string \<times> int) list \<Rightarrow> (string \<times> int) list" where
  "sorted_by_count_desc items = rev (sort_key snd (rev items))"

section \<open>Credibility model\<close>

text \<open>\<^verbatim>\<open>SOURCE_CREDIBILITY.get(source_type, 0.5)\<close> and the engagement bonus.\<close>

definition SOURCE_CREDIBILITY :: "(string \<times> real) list" where
  "SOURCE_CREDIBILITY =
     [(''wirecutter'', 0.95), (''rtings'', 0.95), (''techradar'', 0.85),
      (''youtube'', 0.70), (''reddit'', 0.60), (''forum'', 0.55), (''unknown'', 0.50)]"

definition base_credibility :: "string \<Rightarrow> real" where
  "base_credibility st = dict_get SOURCE_CREDIBILITY st 0.5"

text \<open>\<^verbatim>\<open>if review.upvotes:\<close> is false for \<^verbatim>\<open>None\<close> and for 0.\<close>

definition engagement_bonus :: "int option \<Rightarrow> real" where
  "engagement_bonus up =
     (case up of
        None \<Rightarrow> 0
      | Some u \<Rightarrow>
          if u \<noteq> 0 then
            (if u > 100 then 0.1 else if u > 50 then 0.05 else if u > 10 then 0.02 else 0)
          else 0)"

definition credibility :: "string \<Rightarrow> int option \<Rightarrow> real" where
  "credibility st up = min 1.0 (base_credibility st + engagement_bonus up)"

section \<open>Item analyzer\<close>

text \<open>
  The body of the \<^verbatim>\<open>try\<close> block of \<^verbatim>\<open>analyze_review\<close>. \<open>Inl e\<close>: the body
  raised \<open>e\<close>; \<open>Inr None\<close>: the pattern did not match and control falls out of the
  block; \<open>Inr (Some a)\<close>: the body returned \<open>a\<close>. A parsed value that is not a
  dictionary has no \<^verbatim>\<open>get\<close> (AttributeError).
\<close>

definition analyze_body ::
  "backend \<Rightarrow> nat \<Rightarrow> ScrapedReview \<Rightarrow> real \<Rightarrow> py_error + ReviewAnalysis option" where
  "analyze_body be i review cred =
     (case messages_create be i
             (AnalyzeRequest (source_name review) (take 3000 (content review))) of
        None \<Rightarrow> Inl BackendError
      | Some txt \<Rightarrow>
          (case re_search txt of
             None \<Rightarrow> Inr None
           | Some json_match \<Rightarrow>
               (case json_loads be json_match of
                  None \<Rightarrow> Inl JSONDecodeError
                | Some (JDict data) \<Rightarrow>
                    (case py_float be (dict_get data ''sentiment'' (JInt 0)) of
                       Inl e \<Rightarrow> Inl e
                     | Inr s \<Rightarrow>
                         (case slice3 (dict_get data ''pros'' (JList [])) of
                            Inl e \<Rightarrow> Inl e
                          | Inr p \<Rightarrow>
                              (case slice3 (dict_get data ''cons'' (JList [])) of
                                 Inl e \<Rightarrow> Inl e
                               | Inr c \<Rightarrow>
                                   Inr (Some \<lparr>sentiment = s, pros = p, cons = c,
                                              credibility_weight = cred\<rparr>))))
                | Some _ \<Rightarrow> Inl AttributeError)))"

text \<open>
  \<^verbatim>\<open>except Exception\<close> catches every error of the body; after it, and when the
  pattern did not match, the default neutral analysis is returned.
\<close>

definition analyze_review :: "backend \<Rightarrow> nat \<Rightarrow> ScrapedReview \<Rightarrow> ReviewAnalysis" where
  "analyze_review be i review =
     (let cred = credibility (source_type review) (upvotes review)
      in case analyze_body be i review cred of
           Inr (Some a) \<Rightarrow> a
         | _ \<Rightarrow> \<lparr>sentiment = 0, pros = [], cons = [], credibility_weight = cred\<rparr>)"

section \<open>Rating aggregator\<close>

text \<open>The loop over \<^verbatim>\<open>reviews[:20]\<close>; \<open>i\<close> counts the backend calls made so far.\<close>

fun analyze_all :: "backend \<Rightarrow> nat \<Rightarrow> ScrapedReview list \<Rightarrow> ReviewAnalysis list" where
  "analyze_all be i [] = []"
| "analyze_all be i (review # rest) = analyze_review be i review # analyze_all be (Suc i) rest"

definition total_weight :: "ReviewAnalysis list \<Rightarrow> real" where
  "total_weight analyses = sum_list (map credibility_weight analyses)"

definition aggregate_sentiment :: "ReviewAnalysis list \<Rightarrow> real" where
  "aggregate_sentiment analyses =
     (if total_weight analyses > 0
      then sum_list (map (\<lambda>a. sentiment a * credibility_weight a) analyses) / total_weight analyses
      else 0)"

text \<open>
  One pass of \<^verbatim>\<open>for pro in analysis.pros\<close>: an element that is not a string has no
  \<^verbatim>\<open>lower\<close> and the calculator raises AttributeError.
\<close>

fun count_phrases :: "(string \<times> int) list \<Rightarrow> json list \<Rightarrow> py_error + (string \<times> int) list" where
  "count_phrases d [] = Inr d"
| "count_phrases d (JStr pro # rest) =
     (let pro_lower = py_strip (py_lower pro)
      in if pro_lower \<noteq> []
         then count_phrases (dict_set d pro_lower (dict_get d pro_lower 0 + 1)) rest
         else count_phrases d rest)"
| "count_phrases d (_ # rest) = Inl AttributeError"

fun aggregate_pros_cons ::
  "(string \<times> int) list \<Rightarrow> (string \<times> int) list \<Rightarrow> ReviewAnalysis list \<Rightarrow>
   py_error + (string \<times> int) list \<times> (string \<times> int) list" where
  "aggregate_pros_cons all_pros all_cons [] = Inr (all_pros, all_cons)"
| "aggregate_pros_cons all_pros all_cons (analysis # rest) =
     (case count_phrases all_pros (pros analysis) of
        Inl e \<Rightarrow> Inl e
      | Inr all_pros' \<Rightarrow>
          (case count_phrases all_cons (cons analysis) of
             Inl e \<Rightarrow> Inl e
           | Inr all_cons' \<Rightarrow> aggregate_pros_cons all_pros' all_cons' rest))"

definition reliability :: "real list \<Rightarrow> real" where
  "reliability sentiments =
     (if length sentiments > 1 then max 0 (1 - stdev sentiments) else 0.5)"

text \<open>\<^verbatim>\<open>r.upvotes or 0\<close>: \<^verbatim>\<open>None\<close> counts as 0.\<close>

definition or0 :: "int option \<Rightarrow> int" where
  "or0 v = (case v of None \<Rightarrow> 0 | Some n \<Rightarrow> n)"

definition popularity :: "ScrapedReview list \<Rightarrow> real" where
  "popularity reviews =
     (let total_upvotes = sum_list (map (\<lambda>r. or0 (upvotes r)) reviews);
          total_comments = sum_list (map (\<lambda>r. or0 (comment_count r)) reviews);
          popularity_raw = real_of_int total_upvotes / 100 + real_of_int total_comments / 50
      in min 1.0 (popularity_raw / real (length reviews)))"

definition sentiment_desc :: "real \<Rightarrow> string" where
  "sentiment_desc s =
     (if s > 0.5 then ''very positive''
      else if s > 0.2 then ''positive''
      else if s > - 0.2 then ''mixed''
      else if s > - 0.5 then ''negative''
      else ''very negative'')"

definition key_points :: "string list \<Rightarrow> string" where
  "key_points ps = (if ps \<noteq> [] then py_join '', '' (take 3 ps) else ''none mentioned'')"

definition generate_summary ::
  "backend \<Rightarrow> nat \<Rightarrow> string \<Rightarrow> real \<Rightarrow> string list \<Rightarrow> string list \<Rightarrow> int \<Rightarrow> string" where
  "generate_summary be i product_name s ps cs num_sources =
     (case messages_create be i
             (SummaryRequest product_name (sentiment_desc s) (key_points ps) (key_points cs)
                num_sources) of
        Some txt \<Rightarrow> py_strip txt
      | None \<Rightarrow>
          ''Based on '' @ py_str num_sources @ '' sources, users have '' @ sentiment_desc s
            @ '' opinions about the '' @ product_name @ ''.'')"

definition final_score_raw :: "real \<Rightarrow> real \<Rightarrow> real \<Rightarrow> real \<Rightarrow> real" where
  "final_score_raw s rel v p = 50 + s * 30 + rel * 10 + v * 5 + p * 5"

definition calculate_rating ::
  "backend \<Rightarrow> string \<Rightarrow> ScrapedReview list \<Rightarrow> py_error + ProductRating" where
  "calculate_rating be product_name reviews =
     (if reviews = [] then
        Inr \<lparr>ai_rating = 50, confidence = 0.0, sentiment_score = 0.0, reliability_score = 0.0,
             value_score = 0.5, popularity_score = 0.0, sources_analyzed = 0,
             rating_pros = [], rating_cons = [],
             summary = ''No reviews available for analysis.''\<rparr>
      else
        (let analyses = analyze_all be 0 (take 20 reviews);
             sentiment_sc = aggregate_sentiment analyses
         in case aggregate_pros_cons [] [] analyses of
              Inl e \<Rightarrow> Inl e
            | Inr (all_pros, all_cons) \<Rightarrow>
                (let top_pros = take 5 (sorted_by_count_desc all_pros);
                     top_cons = take 5 (sorted_by_count_desc all_cons);
                     reliability_sc = reliability (map sentiment analyses);
                     popularity_sc = popularity reviews;
                     value_sc = 0.5 + sentiment_sc * 0.2;
                     source_confidence = min 1.0 (real (length reviews) / 15);
                     conf = source_confidence * 0.6 + reliability_sc * 0.4;
                     rating =
                       max 0 (min 100 (py_int
                         (final_score_raw sentiment_sc reliability_sc value_sc popularity_sc)));
                     summ = generate_summary be (length analyses) product_name sentiment_sc
                              (map fst top_pros) (map fst top_cons) (int (length reviews))
                 in Inr \<lparr>ai_rating = rating,
                         confidence = py_round2 conf,
                         sentiment_score = py_round2 sentiment_sc,
                         reliability_score = py_round2 reliability_sc,
                         value_score = py_round2 value_sc,
                         popularity_score = py_round2 popularity_sc,
                         sources_analyzed = int (length reviews),
                         rating_pros = map (\<lambda>p. py_capitalize (fst p)) top_pros,
                         rating_cons = map (\<lambda>c. py_capitalize (fst c)) top_cons,
                         summary = summ\<rparr>)))"

section \<open>The calculator in double arithmetic\<close>

text \<open>
  \<open>calculate_rating\<close> above computes in exact real arithmetic. The code computes in
  doubles: every operation rounds, \<^verbatim>\<open>sum\<close>, \<^verbatim>\<open>statistics.stdev\<close> and
  \<^verbatim>\<open>round\<close> are library functions on doubles, and a decimal literal such as 0.2
  denotes the nearest double. These operations are parameters of the model below, which
  follows the code operation by operation; whatever is proved of it for every choice of
  the operations holds of the code. An integer divided by an integer (\<^verbatim>\<open>total_upvotes / 100\<close>)
  raises OverflowError when the quotient is too large for a double. The literals 0, 0.5,
  1.0 and the integers of the score formula are doubles themselves; comparisons,
  \<^verbatim>\<open>min\<close>, \<^verbatim>\<open>max\<close> and \<^verbatim>\<open>int\<close> on a finite double are exact.
\<close>

record arith =
  fl_lit :: "real \<Rightarrow> real"
  fadd :: "real \<Rightarrow> real \<Rightarrow> real"
  fsub :: "real \<Rightarrow> real \<Rightarrow> real"
  fmul :: "real \<Rightarrow> real \<Rightarrow> real"
  fdiv :: "real \<Rightarrow> real \<Rightarrow> real"
  fsum :: "real list \<Rightarrow> real"
  truediv :: "int \<Rightarrow> int \<Rightarrow> py_error + real"
  fstdev :: "real list \<Rightarrow> real"
  round2 :: "real \<Rightarrow> real"

text \<open>
  Exact arithmetic: no operation rounds, and \<open>round2\<close> rounds the exact value to two
  decimals. It serves for the concrete runs below, which are chosen so that double
  arithmetic gives the same results.
\<close>

definition exact_arith :: arith where
  "exact_arith =
     \<lparr>fl_lit = (\<lambda>x. x), fadd = (+), fsub = (-), fmul = (*), fdiv = (/), fsum = sum_list,
      truediv = (\<lambda>a b. Inr (real_of_int a / real_of_int b)), fstdev = stdev,
      round2 = py_round2\<rparr>"

definition total_weight_fp :: "arith \<Rightarrow> ReviewAnalysis list \<Rightarrow> real" where
  "total_weight_fp ar analyses = fsum ar (map credibility_weight analyses)"

definition aggregate_sentiment_fp :: "arith \<Rightarrow> ReviewAnalysis list \<Rightarrow> real" where
  "aggregate_sentiment_fp ar analyses =
     (if total_weight_fp ar analyses > 0
      then fdiv ar (fsum ar (map (\<lambda>a. fmul ar (sentiment a) (credibility_weight a)) analyses))
             (total_weight_fp ar analyses)
      else 0)"

definition reliability_fp :: "arith \<Rightarrow> real list \<Rightarrow> real" where
  "reliability_fp ar sentiments =
     (if length sentiments > 1 then max 0 (fsub ar 1 (fstdev ar sentiments)) else 0.5)"

definition popularity_fp :: "arith \<Rightarrow> ScrapedReview list \<Rightarrow> py_error + real" where
  "popularity_fp ar reviews =
     (let total_upvotes = sum_list (map (\<lambda>r. or0 (upvotes r)) reviews);
          total_comments = sum_list (map (\<lambda>r. or0 (comment_count r)) reviews)
      in case truediv ar total_upvotes 100 of
           Inl e \<Rightarrow> Inl e
         | Inr u \<Rightarrow>
             (case truediv ar total_comments 50 of
                Inl e \<Rightarrow> Inl e
              | Inr c \<Rightarrow>
                  (let popularity_raw = fadd ar u c
                   in Inr (min 1.0 (fdiv ar popularity_raw (real (length reviews)))))))"

definition sentiment_desc_fp :: "arith \<Rightarrow> real \<Rightarrow> string" where
  "sentiment_desc_fp ar s =
     (if s > 0.5 then ''very positive''
      else if s > fl_lit ar 0.2 then ''positive''
      else if s > - fl_lit ar 0.2 then ''mixed''
      else if s > - 0.5 then ''negative''
      else ''very negative'')"

definition generate_summary_fp ::
  "arith \<Rightarrow> backend \<Rightarrow> nat \<Rightarrow> string \<Rightarrow> real \<Rightarrow> string list \<Rightarrow> string list \<Rightarrow> int \<Rightarrow> string"
  where
  "generate_summary_fp ar be i product_name s ps cs num_sources =
     (case messages_create be i
             (SummaryRequest product_name (sentiment_desc_fp ar s) (key_points ps)
                (key_points cs) num_sources) of
        Some txt \<Rightarrow> py_strip txt
      | None \<Rightarrow>
          ''Based on '' @ py_str num_sources @ '' sources, users have ''
            @ sentiment_desc_fp ar s @ '' opinions about the '' @ product_name @ ''.'')"

text \<open>
  The sum of the score formula, as Python evaluates it: from left to right, each product
  and each sum rounded.
\<close>

definition final_score_fp :: "arith \<Rightarrow> real \<Rightarrow> real \<Rightarrow> real \<Rightarrow> real \<Rightarrow> real" where
  "final_score_fp ar s rel v p =
     fadd ar (fadd ar (fadd ar (fadd ar 50 (fmul ar s 30)) (fmul ar rel 10)) (fmul ar v 5))
       (fmul ar p 5)"

definition calculate_rating_fp ::
  "arith \<Rightarrow> backend \<Rightarrow> string \<Rightarrow> ScrapedReview list \<Rightarrow> py_error + ProductRating" where
  "calculate_rating_fp ar be product_name reviews =
     (if reviews = [] then
        Inr \<lparr>ai_rating = 50, confidence = 0.0, sentiment_score = 0.0, reliability_score = 0.0,
             value_score = 0.5, popularity_score = 0.0, sources_analyzed = 0,
             rating_pros = [], rating_cons = [],
             summary = ''No reviews available for analysis.''\<rparr>
      else
        (let analyses = analyze_all be 0 (take 20 reviews);
             sentiment_sc = aggregate_sentiment_fp ar analyses
         in case aggregate_pros_cons [] [] analyses of
              Inl e \<Rightarrow> Inl e
            | Inr (all_pros, all_cons) \<Rightarrow>
                (let top_pros = take 5 (sorted_by_count_desc all_pros);
                     top_cons = take 5 (sorted_by_count_desc all_cons);
                     reliability_sc = reliability_fp ar (map sentiment analyses)
                 in case popularity_fp ar reviews of
                      Inl e \<Rightarrow> Inl e
                    | Inr popularity_sc \<Rightarrow>
                        (let value_sc = fadd ar 0.5 (fmul ar sentiment_sc (fl_lit ar 0.2))
                         in case truediv ar (int (length reviews)) 15 of
                              Inl e \<Rightarrow> Inl e
                            | Inr q \<Rightarrow>
                                (let source_confidence = min 1.0 q;
                                     conf = fadd ar (fmul ar source_confidence (fl_lit ar 0.6))
                                              (fmul ar reliability_sc (fl_lit ar 0.4));
                                     rating =
                                       max 0 (min 100 (py_int
                                         (final_score_fp ar sentiment_sc reliability_sc value_sc
                                            popularity_sc)));
                                     summ = generate_summary_fp ar be (length analyses)
                                              product_name sentiment_sc (map fst top_pros)
                                              (map fst top_cons) (int (length reviews))
                                 in Inr \<lparr>ai_rating = rating,
                                         confidence = round2 ar conf,
                                         sentiment_score = round2 ar sentiment_sc,
                                         reliability_score = round2 ar reliability_sc,
                                         value_score = round2 ar value_sc,
                                         popularity_score = round2 ar popularity_sc,
                                         sources_analyzed = int (length reviews),
                                         rating_pros = map (\<lambda>p. py_capitalize (fst p)) top_pros,
                                         rating_cons = map (\<lambda>c. py_capitalize (fst c)) top_cons,
                                         summary = summ\<rparr>)))))"

section \<open>Notions of the specification\<close>









text \<open>The distinct elements of a list, each at the place of its first occurrence.\<close>

definition first_seen :: "'a list \<Rightarrow> 'a list" where
  "first_seen ks = rev (remdups (rev ks))"

text \<open>
  \<open>ranked\<close> ranks the buckets of the keys \<open>ks\<close>: it lists every key once, by
  descending number of occurrences, and the keys of any one frequency stand in the order
  in which they were first seen.
\<close>

definition ranked_by_frequency :: "string list \<Rightarrow> string list \<Rightarrow> bool" where
  "ranked_by_frequency ks ranked =
     (distinct ranked \<and> set ranked = set ks
      \<and> sorted_wrt (\<lambda>a b. count_list ks a \<ge> count_list ks b) ranked
      \<and> (\<forall>k \<in> set ranked.
            filter (\<lambda>x. count_list ks x = count_list ks k) ranked =
            filter (\<lambda>x. count_list ks x = count_list ks k) (first_seen ks)))"


section \<open>Concrete inputs\<close>

text \<open>A review from a discussion board, with a given upvote count and no comment count.\<close>

definition example_review :: "int option \<Rightarrow> ScrapedReview" where
  "example_review up =
     \<lparr>source_type = ''reddit'', source_url = ''https://example.org/t/1'',
      source_name = ''r/headphones'', content = ''Solid build, weak battery.'',
      upvotes = up, comment_count = None\<rparr>"

text \<open>A backend that is down: every call raises.\<close>

definition failing_backend :: backend where
  "failing_backend =
     \<lparr>messages_create = (\<lambda>i req. None), json_loads = (\<lambda>s. None), float_of_str = (\<lambda>s. None)\<rparr>"

text \<open>
  A backend whose analysis holds a sentiment far outside the range it was asked for;
  \<open>json_loads\<close> is \<^verbatim>\<open>json.loads\<close> on the one fragment that occurs. Its summary
  call raises.
\<close>

definition adversarial_backend :: backend where
  \<open>adversarial_backend =
     \<lparr>messages_create =
        (\<lambda>i req. case req of
                   AnalyzeRequest n c \<Rightarrow> Some ''Result: {"sentiment": 999}''
                 | SummaryRequest p d ps cs n \<Rightarrow> None),
      json_loads =
        (\<lambda>s. if s = ''{"sentiment": 999}'' then Some (JDict [(''sentiment'', JInt 999)])
             else None),
      float_of_str = (\<lambda>s. None)\<rparr>\<close>


text \<open>
  A backend whose analysis lists numbers where phrases are expected; \<open>json_loads\<close>
  is \<^verbatim>\<open>json.loads\<close> on the one fragment that occurs.
\<close>

definition numeric_pros_backend :: backend where
  \<open>numeric_pros_backend =
     \<lparr>messages_create =
        (\<lambda>i req. case req of
                   AnalyzeRequest n c \<Rightarrow> Some ''{"sentiment": 0.5, "pros": [1, 2]}''
                 | SummaryRequest p d ps cs n \<Rightarrow> None),
      json_loads =
        (\<lambda>s. if s = ''{"sentiment": 0.5, "pros": [1, 2]}''
             then Some (JDict [(''sentiment'', JFloat 0.5), (''pros'', JList [JInt 1, JInt 2])])
             else None),
      float_of_str = (\<lambda>s. None)\<rparr>\<close>

text \<open>
  A backend that finds the first review enthusiastic and every later one damning;
  \<open>json_loads\<close> is \<^verbatim>\<open>json.loads\<close> on the two fragments that occur.
\<close>

definition split_backend :: backend where
  \<open>split_backend =
     \<lparr>messages_create =
        (\<lambda>i req. case req of
           AnalyzeRequest n c \<Rightarrow>
             (if i = 0 then Some ''{"sentiment": 1.0}'' else Some ''{"sentiment": -1.0}'')
         | SummaryRequest p d ps cs n \<Rightarrow> None),
      json_loads =
        (\<lambda>s. if s = ''{"sentiment": 1.0}'' then Some (JDict [(''sentiment'', JFloat 1)])
             else if s = ''{"sentiment": -1.0}'' then Some (JDict [(''sentiment'', JFloat (- 1))])
             else None),
      float_of_str = (\<lambda>s. None)\<rparr>\<close>







definition split_rating :: ProductRating where
  "split_rating =
     \<lparr>ai_rating = 52, confidence = 0.08, sentiment_score = 0, reliability_score = 0,
      value_score = 0.5, popularity_score = 0, sources_analyzed = 2,
      rating_pros = [], rating_cons = [],
      summary = ''Based on 2 sources, users have mixed opinions about the Widget.''\<rparr>"



section \<open>Credibility weights\<close>

lemma base_credibility_bounds: "0.5 \<le> base_credibility st \<and> base_credibility st \<le> 0.95"
  by (simp add: base_credibility_def dict_get_def SOURCE_CREDIBILITY_def)

lemma engagement_bonus_bounds: "0 \<le> engagement_bonus up \<and> engagement_bonus up \<le> 0.1"
  by (simp add: engagement_bonus_def split: option.split)

lemma engagement_bonus_mono:
  "u \<le> v \<Longrightarrow> engagement_bonus (Some u) \<le> engagement_bonus (Some v)"
  by (simp add: engagement_bonus_def)

lemma credibility_bounds: "0.5 \<le> credibility st up \<and> credibility st up \<le> 1"
  using base_credibility_bounds [of st] engagement_bonus_bounds [of up]
  by (simp add: credibility_def)

lemma analyze_review_weight:
  "credibility_weight (analyze_review be i review) =
     credibility (source_type review) (upvotes review)"
  by (auto simp: analyze_review_def analyze_body_def Let_def
      split: option.splits sum.splits json.splits)

lemma length_analyze_all: "length (analyze_all be i rs) = length rs"
  by (induction rs arbitrary: i) simp_all

lemma total_weight_analyze_all: "real (length rs) / 2 \<le> total_weight (analyze_all be i rs)"
proof (induction rs arbitrary: i)
  case Nil
  show ?case by (simp add: total_weight_def)
next
  case (Cons r rs)
  have "1 / 2 \<le> credibility_weight (analyze_review be i r)"
    using credibility_bounds [of "source_type r" "upvotes r"] by (simp add: analyze_review_weight)
  with Cons [of "Suc i"] show ?case by (simp add: total_weight_def)
qed

text \<open>
  Claim C10. Every analysis that \<open>analyze_review\<close> produces has a credibility weight
  between 0.5 and 1.0, whatever the backend answers. Hence for a non-empty list of
  reviews the total weight of the analyses of its first 20 items is at least 0.5: the
  branch of \<open>calculate_rating\<close> for a total weight that is not positive is never taken
  there, and the sentiment score is the quotient of the two sums, with a non-zero divisor.
\<close>

theorem analyzer_weight_range:
  "0.5 \<le> credibility_weight (analyze_review be i review)
   \<and> credibility_weight (analyze_review be i review) \<le> 1
   \<and> (reviews \<noteq> [] \<longrightarrow>
        0.5 \<le> total_weight (analyze_all be k (take 20 reviews))
        \<and> aggregate_sentiment (analyze_all be k (take 20 reviews)) =
            sum_list (map (\<lambda>a. sentiment a * credibility_weight a)
                        (analyze_all be k (take 20 reviews)))
              / total_weight (analyze_all be k (take 20 reviews)))"
proof -
  have w: "0.5 \<le> credibility_weight (analyze_review be i review)
       \<and> credibility_weight (analyze_review be i review) \<le> 1"
    using credibility_bounds [of "source_type review" "upvotes review"]
    by (simp add: analyze_review_weight)
  have t: "0.5 \<le> total_weight (analyze_all be k (take 20 reviews))" if "reviews \<noteq> []"
  proof -
    from that have "1 \<le> length (take 20 reviews)" by (cases reviews) simp_all
    then have "1 / 2 \<le> real (length (take 20 reviews)) / 2" by simp
    with total_weight_analyze_all [of "take 20 reviews" be k] show ?thesis by simp
  qed
  show ?thesis
  proof (cases "reviews = []")
    case True
    with w show ?thesis by simp
  next
    case False
    with t have "0 < total_weight (analyze_all be k (take 20 reviews))" by simp
    with w t False show ?thesis by (simp add: aggregate_sentiment_def)
  qed
qed

theorem analyzer_weight_range_witness:
  "[example_review None] \<noteq> []
   \<and> 0.5 \<le> credibility_weight (analyze_review failing_backend 0 (example_review None))
   \<and> 0.5 \<le> total_weight (analyze_all failing_backend 0 (take 20 [example_review None]))"
  using analyzer_weight_range [of failing_backend 0 "example_review None" "[example_review None]" 0]
  by simp

section \<open>Analyzer fallback\<close>

lemma analyze_review_total_fallback:
  "analyze_body be i review (credibility (source_type review) (upvotes review)) = Inl e
   \<or> analyze_body be i review (credibility (source_type review) (upvotes review)) = Inr None
   \<Longrightarrow> analyze_review be i review =
         \<lparr>sentiment = 0, pros = [], cons = [],
          credibility_weight = credibility (source_type review) (upvotes review)\<rparr>"
  by (auto simp: analyze_review_def)

text \<open>
  Claim C7. When the backend call raises, or its response holds no fragment that the
  pattern matches, or the matched fragment does not parse, \<open>analyze_review\<close> returns
  the neutral analysis: sentiment 0, no pros, no cons, and the credibility weight computed
  from the source type and the upvotes before the call. In these cases the body of the
  \<^verbatim>\<open>try\<close> block raises or falls through without a result; the function itself
  has no error result, since the handler catches every exception of the block.
\<close>

theorem analyzer_fallback:
  assumes "messages_create be i
             (AnalyzeRequest (source_name review) (take 3000 (content review))) = None
     \<or> (\<exists>txt. messages_create be i
                 (AnalyzeRequest (source_name review) (take 3000 (content review))) = Some txt
          \<and> (re_search txt = None
               \<or> (\<exists>m. re_search txt = Some m \<and> json_loads be m = None)))"
  shows "(analyze_body be i review (credibility (source_type review) (upvotes review))
            = Inl BackendError
          \<or> analyze_body be i review (credibility (source_type review) (upvotes review))
            = Inr None
          \<or> analyze_body be i review (credibility (source_type review) (upvotes review))
            = Inl JSONDecodeError)
     \<and> analyze_review be i review =
         \<lparr>sentiment = 0, pros = [], cons = [],
          credibility_weight = credibility (source_type review) (upvotes review)\<rparr>"
  using assms by (auto simp: analyze_review_def analyze_body_def)

theorem analyzer_fallback_witness:
  "messages_create failing_backend 0
      (AnalyzeRequest (source_name (example_review None))
         (take 3000 (content (example_review None)))) = None
   \<and> analyze_review failing_backend 0 (example_review None) =
       \<lparr>sentiment = 0, pros = [], cons = [],
        credibility_weight =
          credibility (source_type (example_review None)) (upvotes (example_review None))\<rparr>"
proof -
  have h: "messages_create failing_backend 0
      (AnalyzeRequest (source_name (example_review None))
         (take 3000 (content (example_review None)))) = None"
    by (simp add: failing_backend_def)
  from h analyzer_fallback [of failing_backend 0 "example_review None"] show ?thesis by blast
qed

section \<open>The standard deviation of an opposite pair\<close>

lemma stdev_pm1: "stdev [1, - 1] = sqrt 2"
  by (simp add: stdev_def mean_def)

section \<open>The credibility formula\<close>

text \<open>
  Claim C6, as the code has it. The weight is the minimum of 1.0 and base plus bonus. The
  base comes from the table, whose keys are site and platform names: wirecutter and
  rtings 0.95, techradar 0.85, youtube 0.70, reddit 0.60, forum 0.55, and 0.50 for
  unknown and for every other string. The bonus is 0.10 above 100 upvotes, 0.05 above
  50, 0.02 above 10 and 0 otherwise (also without an upvote count), so the weight is
  monotone in the upvotes. In particular the weight of wirecutter without upvotes is
  0.95 and the weight of unknown with 150 upvotes is 0.60.
\<close>

theorem credibility_formula:
  "credibility st up = min 1 (base_credibility st + engagement_bonus up)
   \<and> base_credibility st =
       (if st = ''wirecutter'' \<or> st = ''rtings'' then 0.95
        else if st = ''techradar'' then 0.85
        else if st = ''youtube'' then 0.70
        else if st = ''reddit'' then 0.60
        else if st = ''forum'' then 0.55
        else 0.50)
   \<and> engagement_bonus up =
       (case up of
          None \<Rightarrow> 0
        | Some u \<Rightarrow> if u > 100 then 0.10 else if u > 50 then 0.05 else if u > 10 then 0.02 else 0)
   \<and> (\<forall>u v. u \<le> v \<longrightarrow> credibility st (Some u) \<le> credibility st (Some v))
   \<and> (\<forall>u. credibility st None \<le> credibility st (Some u))
   \<and> credibility ''wirecutter'' None = 0.95
   \<and> credibility ''rtings'' None = 0.95
   \<and> credibility ''unknown'' (Some 150) = 0.60"
proof -
  have mono: "credibility st (Some u) \<le> credibility st (Some v)" if "u \<le> v" for u v
    using engagement_bonus_mono [OF that] by (simp add: credibility_def)
  have "engagement_bonus None = 0" by (simp add: engagement_bonus_def)
  then have none: "credibility st None \<le> credibility st (Some u)" for u
    using engagement_bonus_bounds [of "Some u"] by (auto simp: credibility_def min_def)
  have base: "base_credibility st =
       (if st = ''wirecutter'' \<or> st = ''rtings'' then 0.95
        else if st = ''techradar'' then 0.85
        else if st = ''youtube'' then 0.70
        else if st = ''reddit'' then 0.60
        else if st = ''forum'' then 0.55
        else 0.50)"
    by (simp add: base_credibility_def dict_get_def SOURCE_CREDIBILITY_def)
  have bonus: "engagement_bonus up =
       (case up of
          None \<Rightarrow> 0
        | Some u \<Rightarrow> if u > 100 then 0.10 else if u > 50 then 0.05 else if u > 10 then 0.02 else 0)"
    by (simp add: engagement_bonus_def split: option.split)
  have ex: "credibility ''wirecutter'' None = 0.95" "credibility ''rtings'' None = 0.95"
    "credibility ''unknown'' (Some 150) = 0.60"
    by (simp_all add: credibility_def base_credibility_def dict_get_def SOURCE_CREDIBILITY_def
        engagement_bonus_def)
  have c: "credibility st up = min 1 (base_credibility st + engagement_bonus up)"
    by (simp add: credibility_def)
  from c mono none base bonus ex show ?thesis by simp
qed

theorem credibility_formula_witness:
  "(40 :: int) \<le> 60 \<and> credibility ''forum'' (Some 40) \<le> credibility ''forum'' (Some 60)"
proof -
  have "\<forall>u v. u \<le> v \<longrightarrow> credibility ''forum'' (Some u) \<le> credibility ''forum'' (Some v)"
    using credibility_formula [of "''forum''" None] by blast
  then show ?thesis by simp
qed

text \<open>
  The claim as stated names the source type "editorial", which is no key of the table:
  its weight without upvotes is the default 0.5, not 0.95.
\<close>

theorem editorial_key_absent:
  "credibility ''editorial'' None = 0.5 \<and> credibility ''editorial'' None \<noteq> 0.95"
  by (simp add: credibility_def base_credibility_def dict_get_def SOURCE_CREDIBILITY_def
      engagement_bonus_def)

section \<open>The calculator on the concrete inputs\<close>

lemma credibility_reddit:
  "credibility ''reddit'' None = 0.6" "credibility ''reddit'' (Some 6) = 0.6"
  "credibility ''reddit'' (Some (- 50)) = 0.6"
  by (simp_all add: credibility_def base_credibility_def dict_get_def SOURCE_CREDIBILITY_def
      engagement_bonus_def)

lemma analyze_review_failing:
  "analyze_review failing_backend i (example_review up) =
     \<lparr>sentiment = 0, pros = [], cons = [], credibility_weight = credibility ''reddit'' up\<rparr>"
  by (simp add: analyze_review_def analyze_body_def failing_backend_def example_review_def)

lemma re_search_adversarial:
  \<open>re_search ''Result: {"sentiment": 999}'' = Some ''{"sentiment": 999}''\<close>
  by (simp add: brace_match_def)

lemma analyze_review_adversarial:
  "analyze_review adversarial_backend i (example_review up) =
     \<lparr>sentiment = 999, pros = [], cons = [], credibility_weight = credibility ''reddit'' up\<rparr>"
  by (simp add: analyze_review_def analyze_body_def adversarial_backend_def example_review_def
      re_search_adversarial py_float_def slice3_def dict_get_def del: re_search.simps)

lemma str_nat_values: "str_nat (Suc 0) = ''1''" "str_nat 1 = ''1''" "str_nat 25 = ''25''"
  by code_simp+

lemma py_round2_values:
  "py_round2 0 = 0" "py_round2 1 = 1" "py_round2 (1 / 2) = 1 / 2" "py_round2 (6 / 100) = 6 / 100"
  "py_round2 (24 / 100) = 24 / 100" "py_round2 999 = 999" "py_round2 (2003 / 10) = 2003 / 10"
  "py_round2 (- (1 / 2)) = - (1 / 2)" "py_round2 (6 / 25) = 6 / 25" "py_round2 (3 / 50) = 3 / 50"
  by (simp_all add: py_round2_def Let_def)

lemma summary_failing:
  "generate_summary failing_backend i ''Widget'' 0 [] [] 1 =
     ''Based on 1 sources, users have mixed opinions about the Widget.''"
  "generate_summary failing_backend i ''Widget'' 0 [] [] 25 =
     ''Based on 25 sources, users have mixed opinions about the Widget.''"
  by (simp_all add: generate_summary_def failing_backend_def sentiment_desc_def py_str_def
      str_nat_values del: str_nat.simps)

lemma summary_adversarial:
  "generate_summary adversarial_backend i ''Widget'' 999 [] [] 1 =
     ''Based on 1 sources, users have very positive opinions about the Widget.''"
  by (simp add: generate_summary_def adversarial_backend_def sentiment_desc_def py_str_def
      str_nat_values del: str_nat.simps)

lemma popularity_example:
  "popularity [example_review (Some 6)] = 6 / 100"
  "popularity [example_review None] = 0"
  "popularity [example_review (Some (- 50))] = - (1 / 2)"
  by (simp_all add: popularity_def or0_def example_review_def Let_def)





lemma re_search_numeric:
  \<open>re_search ''{"sentiment": 0.5, "pros": [1, 2]}'' = Some ''{"sentiment": 0.5, "pros": [1, 2]}''\<close>
  by (simp add: brace_match_def)

lemma analyze_review_numeric:
  "analyze_review numeric_pros_backend i (example_review None) =
     \<lparr>sentiment = 0.5, pros = [JInt 1, JInt 2], cons = [], credibility_weight = 0.6\<rparr>"
  by (simp add: analyze_review_def analyze_body_def numeric_pros_backend_def example_review_def
      re_search_numeric py_float_def slice3_def dict_get_def credibility_reddit
      del: re_search.simps)

lemma calculate_rating_raises:
  "calculate_rating numeric_pros_backend ''Widget'' [example_review None] = Inl AttributeError"
  by (simp add: calculate_rating_def analyze_review_numeric)

section \<open>The rating of a non-empty list\<close>

lemma calculate_rating_scores:
  assumes "reviews \<noteq> []" and "calculate_rating be name reviews = Inr r"
  shows "ai_rating r =
         max 0 (min 100 (py_int (final_score_raw
           (aggregate_sentiment (analyze_all be 0 (take 20 reviews)))
           (reliability (map sentiment (analyze_all be 0 (take 20 reviews))))
           (0.5 + aggregate_sentiment (analyze_all be 0 (take 20 reviews)) * 0.2)
           (popularity reviews))))"
    and "confidence r =
         py_round2 (min 1.0 (real (length reviews) / 15) * 0.6
                    + reliability (map sentiment (analyze_all be 0 (take 20 reviews))) * 0.4)"
    and "sentiment_score r = py_round2 (aggregate_sentiment (analyze_all be 0 (take 20 reviews)))"
    and "reliability_score r =
         py_round2 (reliability (map sentiment (analyze_all be 0 (take 20 reviews))))"
    and "value_score r =
         py_round2 (0.5 + aggregate_sentiment (analyze_all be 0 (take 20 reviews)) * 0.2)"
    and "popularity_score r = py_round2 (popularity reviews)"
    and "sources_analyzed r = int (length reviews)"
proof -
  from assms obtain all_pros all_cons where
    "aggregate_pros_cons [] [] (analyze_all be 0 (take 20 reviews)) = Inr (all_pros, all_cons)"
    by (simp add: calculate_rating_def Let_def split: sum.splits prod.splits)
  with assms have r: "r = \<lparr>ai_rating =
         max 0 (min 100 (py_int (final_score_raw
           (aggregate_sentiment (analyze_all be 0 (take 20 reviews)))
           (reliability (map sentiment (analyze_all be 0 (take 20 reviews))))
           (0.5 + aggregate_sentiment (analyze_all be 0 (take 20 reviews)) * 0.2)
           (popularity reviews)))),
       confidence = py_round2 (min 1.0 (real (length reviews) / 15) * 0.6
                    + reliability (map sentiment (analyze_all be 0 (take 20 reviews))) * 0.4),
       sentiment_score = py_round2 (aggregate_sentiment (analyze_all be 0 (take 20 reviews))),
       reliability_score = py_round2 (reliability (map sentiment (analyze_all be 0 (take 20 reviews)))),
       value_score = py_round2 (0.5 + aggregate_sentiment (analyze_all be 0 (take 20 reviews)) * 0.2),
       popularity_score = py_round2 (popularity reviews),
       sources_analyzed = int (length reviews),
       rating_pros = map (\<lambda>p. py_capitalize (fst p)) (take 5 (sorted_by_count_desc all_pros)),
       rating_cons = map (\<lambda>c. py_capitalize (fst c)) (take 5 (sorted_by_count_desc all_cons)),
       summary = generate_summary be (length (analyze_all be 0 (take 20 reviews))) name
                   (aggregate_sentiment (analyze_all be 0 (take 20 reviews)))
                   (map fst (take 5 (sorted_by_count_desc all_pros)))
                   (map fst (take 5 (sorted_by_count_desc all_cons))) (int (length reviews))\<rparr>"
    by (simp add: calculate_rating_def Let_def)
  show "ai_rating r =
         max 0 (min 100 (py_int (final_score_raw
           (aggregate_sentiment (analyze_all be 0 (take 20 reviews)))
           (reliability (map sentiment (analyze_all be 0 (take 20 reviews))))
           (0.5 + aggregate_sentiment (analyze_all be 0 (take 20 reviews)) * 0.2)
           (popularity reviews))))"
    and "confidence r =
         py_round2 (min 1.0 (real (length reviews) / 15) * 0.6
                    + reliability (map sentiment (analyze_all be 0 (take 20 reviews))) * 0.4)"
    and "sentiment_score r = py_round2 (aggregate_sentiment (analyze_all be 0 (take 20 reviews)))"
    and "reliability_score r =
         py_round2 (reliability (map sentiment (analyze_all be 0 (take 20 reviews))))"
    and "value_score r =
         py_round2 (0.5 + aggregate_sentiment (analyze_all be 0 (take 20 reviews)) * 0.2)"
    and "popularity_score r = py_round2 (popularity reviews)"
    and "sources_analyzed r = int (length reviews)"
    by (simp_all only: r ProductRating.simps)
qed

text \<open>
  Claim C5. On the empty list \<open>calculate_rating\<close> returns the fixed neutral rating:
  score 50, confidence 0, no sources, no pros, no cons and the fixed summary. No other
  input takes that branch: on a non-empty list the calculator either raises or returns a
  rating that counts at least one source, so the neutral rating is returned exactly on
  the empty list.
\<close>

theorem empty_reviews_neutral:
  "(calculate_rating be name reviews =
      Inr \<lparr>ai_rating = 50, confidence = 0, sentiment_score = 0, reliability_score = 0,
           value_score = 0.5, popularity_score = 0, sources_analyzed = 0,
           rating_pros = [], rating_cons = [],
           summary = ''No reviews available for analysis.''\<rparr>)
   = (reviews = [])"
proof (cases "reviews = []")
  case True
  then show ?thesis by (simp add: calculate_rating_def)
next
  case False
  have "calculate_rating be name reviews \<noteq>
      Inr \<lparr>ai_rating = 50, confidence = 0, sentiment_score = 0, reliability_score = 0,
           value_score = 0.5, popularity_score = 0, sources_analyzed = 0,
           rating_pros = [], rating_cons = [],
           summary = ''No reviews available for analysis.''\<rparr>"
  proof
    assume eq: "calculate_rating be name reviews =
      Inr \<lparr>ai_rating = 50, confidence = 0, sentiment_score = 0, reliability_score = 0,
           value_score = 0.5, popularity_score = 0, sources_analyzed = 0,
           rating_pros = [], rating_cons = [],
           summary = ''No reviews available for analysis.''\<rparr>"
    from calculate_rating_scores(7) [OF False eq] have "int (length reviews) = 0" by simp
    with False show False by simp
  qed
  with False show ?thesis by simp
qed


section \<open>Ranges of the scores\<close>

lemma py_round2_lower: "real_of_int a / 100 \<le> x \<Longrightarrow> real_of_int a / 100 \<le> py_round2 x"
proof -
  assume "real_of_int a / 100 \<le> x"
  then have "real_of_int a \<le> x * 100" by simp
  then have "a \<le> \<lfloor>x * 100\<rfloor>" by (simp add: le_floor_iff)
  then show ?thesis by (auto simp: py_round2_def Let_def divide_right_mono)
qed

lemma py_round2_upper: "x \<le> real_of_int b / 100 \<Longrightarrow> py_round2 x \<le> real_of_int b / 100"
proof -
  assume "x \<le> real_of_int b / 100"
  then have le: "x * 100 \<le> real_of_int b" by simp
  then have f: "\<lfloor>x * 100\<rfloor> \<le> b" by linarith
  have "\<lfloor>x * 100\<rfloor> + 1 \<le> b" if "x * 100 - real_of_int \<lfloor>x * 100\<rfloor> \<ge> 1 / 2"
  proof -
    from that le have "real_of_int \<lfloor>x * 100\<rfloor> < real_of_int b" by linarith
    then show ?thesis by linarith
  qed
  with f show ?thesis
    by (auto simp: py_round2_def Let_def divide_right_mono not_less)
qed

lemma py_round2_unit: "0 \<le> x \<Longrightarrow> x \<le> 1 \<Longrightarrow> 0 \<le> py_round2 x \<and> py_round2 x \<le> 1"
  using py_round2_lower [of 0 x] py_round2_upper [of x 100] by simp

lemma stdev_nonneg: "0 \<le> stdev xs"
proof -
  have "0 \<le> (\<Sum>x\<leftarrow>xs. (x - mean xs)\<^sup>2)" by (rule sum_list_nonneg) auto
  then show ?thesis by (simp add: stdev_def)
qed

lemma reliability_unit: "0 \<le> reliability xs \<and> reliability xs \<le> 1"
  using stdev_nonneg [of xs] by (simp add: reliability_def)

lemma popularity_le_1: "popularity reviews \<le> 1"
  by (simp add: popularity_def Let_def)

lemma popularity_nonneg:
  assumes "\<forall>rv \<in> set reviews. 0 \<le> or0 (upvotes rv) \<and> 0 \<le> or0 (comment_count rv)"
  shows "0 \<le> popularity reviews"
proof -
  have "0 \<le> (\<Sum>r\<leftarrow>reviews. or0 (upvotes r))" "0 \<le> (\<Sum>r\<leftarrow>reviews. or0 (comment_count r))"
    using assms by (auto intro!: sum_list_nonneg)
  then show ?thesis by (simp add: popularity_def Let_def)
qed

lemma weighted_sum_bound:
  assumes "\<forall>a \<in> set as. 0 \<le> credibility_weight a \<and> \<bar>sentiment a\<bar> \<le> 1"
  shows "\<bar>\<Sum>a\<leftarrow>as. sentiment a * credibility_weight a\<bar> \<le> (\<Sum>a\<leftarrow>as. credibility_weight a)"
  using assms
proof (induction as)
  case Nil
  show ?case by simp
next
  case (Cons a as)
  then have "\<bar>sentiment a * credibility_weight a\<bar> \<le> credibility_weight a"
    by (simp add: abs_mult mult_left_le_one_le)
  with Cons show ?case by simp
qed

lemma aggregate_sentiment_unit:
  assumes "\<forall>a \<in> set as. 0 \<le> credibility_weight a \<and> \<bar>sentiment a\<bar> \<le> 1"
  shows "\<bar>aggregate_sentiment as\<bar> \<le> 1"
  using weighted_sum_bound [OF assms]
  by (simp add: aggregate_sentiment_def total_weight_def)

lemma analyze_all_weight_nonneg:
  "a \<in> set (analyze_all be i rs) \<Longrightarrow> 0 \<le> credibility_weight a"
proof (induction rs arbitrary: i)
  case Nil
  then show ?case by simp
next
  case (Cons x xs)
  have "0 \<le> credibility_weight (analyze_review be i x)"
    using credibility_bounds [of "source_type x" "upvotes x"]
    by (simp add: analyze_review_weight)
  with Cons show ?case by auto
qed

text \<open>
  What does hold of a returned rating: the final score, the confidence and the
  reliability score are in range and the popularity score is at most 1, whatever the
  analyzer returns. The sentiment and value scores are in range when every analysed
  sentiment is, and the popularity score is not negative when no count is.
\<close>

lemma rating_ranges:
  assumes "reviews \<noteq> []" and "calculate_rating be name reviews = Inr r"
  shows "0 \<le> ai_rating r \<and> ai_rating r \<le> 100"
    and "0 \<le> confidence r \<and> confidence r \<le> 1"
    and "0 \<le> reliability_score r \<and> reliability_score r \<le> 1"
    and "popularity_score r \<le> 1"
    and "\<forall>a \<in> set (analyze_all be 0 (take 20 reviews)). \<bar>sentiment a\<bar> \<le> 1 \<Longrightarrow>
           - 1 \<le> sentiment_score r \<and> sentiment_score r \<le> 1
           \<and> 0 \<le> value_score r \<and> value_score r \<le> 1"
    and "\<forall>rv \<in> set reviews. 0 \<le> or0 (upvotes rv) \<and> 0 \<le> or0 (comment_count rv) \<Longrightarrow>
           0 \<le> popularity_score r"
proof -
  note f = calculate_rating_scores [OF assms]
  let ?A = "analyze_all be 0 (take 20 reviews)"
  note rel = reliability_unit [of "map sentiment ?A"]
  show "0 \<le> ai_rating r \<and> ai_rating r \<le> 100" by (simp add: f(1))
  define m :: real where "m = min 1.0 (real (length reviews) / 15)"
  have "0 \<le> m" "m \<le> 1" by (simp_all add: m_def)
  with rel have "0 \<le> m * 0.6 + reliability (map sentiment ?A) * 0.4"
    "m * 0.6 + reliability (map sentiment ?A) * 0.4 \<le> 1"
    by linarith+
  then have "0 \<le> min 1.0 (real (length reviews) / 15) * 0.6 + reliability (map sentiment ?A) * 0.4"
    "min 1.0 (real (length reviews) / 15) * 0.6 + reliability (map sentiment ?A) * 0.4 \<le> 1"
    by (simp_all only: m_def)
  then show "0 \<le> confidence r \<and> confidence r \<le> 1"
    unfolding f(2) by (rule py_round2_unit)
  from rel show "0 \<le> reliability_score r \<and> reliability_score r \<le> 1"
    unfolding f(4) by (intro py_round2_unit) simp_all
  show "popularity_score r \<le> 1"
    unfolding f(6) using py_round2_upper [of "popularity reviews" 100] popularity_le_1 [of reviews]
    by simp
  show "0 \<le> popularity_score r"
    if "\<forall>rv \<in> set reviews. 0 \<le> or0 (upvotes rv) \<and> 0 \<le> or0 (comment_count rv)"
    unfolding f(6) using py_round2_lower [of 0 "popularity reviews"] popularity_nonneg [OF that]
    by simp
  show "- 1 \<le> sentiment_score r \<and> sentiment_score r \<le> 1
           \<and> 0 \<le> value_score r \<and> value_score r \<le> 1"
    if s: "\<forall>a \<in> set ?A. \<bar>sentiment a\<bar> \<le> 1"
  proof -
    have w: "\<forall>a \<in> set ?A. 0 \<le> credibility_weight a"
      by (blast intro: analyze_all_weight_nonneg)
    from s w have "\<bar>aggregate_sentiment ?A\<bar> \<le> 1" by (intro aggregate_sentiment_unit) simp
    then have b: "- 1 \<le> aggregate_sentiment ?A" "aggregate_sentiment ?A \<le> 1" by simp_all
    from b have "0 \<le> 0.5 + aggregate_sentiment ?A * 0.2" "0.5 + aggregate_sentiment ?A * 0.2 \<le> 1"
      by linarith+
    then have v: "0 \<le> value_score r \<and> value_score r \<le> 1"
      unfolding f(5) by (rule py_round2_unit)
    from b py_round2_lower [of "- 100" "aggregate_sentiment ?A"]
      py_round2_upper [of "aggregate_sentiment ?A" 100]
    have "- 1 \<le> sentiment_score r \<and> sentiment_score r \<le> 1"
      unfolding f(3) by simp
    with v show ?thesis by simp
  qed
qed

text \<open>
  Claim C1 asks that every score stays in its declared range whatever the analyzer
  returns. The code clamps the final score and caps the popularity score from above; it
  does not clamp the sentiment it reads from the analysis, nor the popularity score from
  below. One review whose analysis carries the sentiment 999 yields the sentiment score
  999 and the value score 200.3; one review with -50 upvotes yields the popularity score
  -0.5. (When an analysis lists a value that is not a string among its phrases, the
  calculator raises instead of returning: \<open>calculate_rating_raises\<close>.)
\<close>

theorem scores_out_of_range:
  "calculate_rating adversarial_backend ''Widget'' [example_review None] =
     Inr \<lparr>ai_rating = 100, confidence = 0.24, sentiment_score = 999, reliability_score = 0.5,
          value_score = 200.3, popularity_score = 0, sources_analyzed = 1,
          rating_pros = [], rating_cons = [],
          summary = ''Based on 1 sources, users have very positive opinions about the Widget.''\<rparr>
   \<and> calculate_rating failing_backend ''Widget'' [example_review (Some (- 50))] =
     Inr \<lparr>ai_rating = 55, confidence = 0.24, sentiment_score = 0, reliability_score = 0.5,
          value_score = 0.5, popularity_score = - 0.5, sources_analyzed = 1,
          rating_pros = [], rating_cons = [],
          summary = ''Based on 1 sources, users have mixed opinions about the Widget.''\<rparr>"
  by (simp add: calculate_rating_def analyze_review_failing analyze_review_adversarial
      credibility_reddit aggregate_sentiment_def total_weight_def sorted_by_count_desc_def
      reliability_def popularity_example final_score_raw_def Let_def py_round2_values py_int_def
      summary_failing summary_adversarial)

section \<open>Aggregation of pros and cons\<close>

lemma py_is_space_lower [simp]: "py_is_space (py_lower_char c) = py_is_space c"
  by (auto simp: py_is_space_def py_lower_char_def Let_def)






lemma first_seen_Nil [simp]: "first_seen [] = []"
  by (simp add: first_seen_def)


lemma set_first_seen [simp]: "set (first_seen ks) = set ks"
  by (simp add: first_seen_def)









text \<open>The ranking is determined by the keys: no two lists rank the same keys.\<close>

lemma sorted_classes_unique:
  fixes c :: "'a \<Rightarrow> nat"
  assumes "sorted_wrt (\<lambda>x y. c x \<ge> c y) a" and "sorted_wrt (\<lambda>x y. c x \<ge> c y) b"
    and "\<And>n. filter (\<lambda>x. c x = n) a = filter (\<lambda>x. c x = n) b"
  shows "a = b"
  using assms
proof (induction a arbitrary: b)
  case Nil
  show ?case
  proof (cases b)
    case Nil
    then show ?thesis by simp
  next
    case (Cons y ys)
    with Nil.prems(3) [of "c y"] show ?thesis by simp
  qed
next
  case (Cons x xs)
  from Cons.prems(3) [of "c x"] have "filter (\<lambda>z. c z = c x) b \<noteq> []" by auto
  then obtain y ys where b: "b = y # ys" by (cases b) auto
  from Cons.prems(3) [of "c y"] b have "y \<in> set (filter (\<lambda>z. c z = c y) (x # xs))" by simp
  then have "\<exists>z \<in> set (x # xs). c z = c y" by auto
  with Cons.prems(1) have xy: "c y \<le> c x" by auto
  from Cons.prems(3) [of "c x"] have "filter (\<lambda>z. c z = c x) b = x # filter (\<lambda>z. c z = c x) xs"
    by simp
  then have "x \<in> set (filter (\<lambda>z. c z = c x) b)" by simp
  then have "\<exists>z \<in> set (y # ys). c z = c x" by (auto simp: b)
  with Cons.prems(2) b have "c x \<le> c y" by auto
  with xy have eq: "c x = c y" by simp
  with Cons.prems(3) [of "c x"] b have "x = y" by simp
  have tails: "filter (\<lambda>z. c z = n) xs = filter (\<lambda>z. c z = n) ys" for n
    using Cons.prems(3) [of n] b \<open>x = y\<close> by (cases "c y = n") simp_all
  from Cons.prems(1) have "sorted_wrt (\<lambda>x y. c x \<ge> c y) xs" by simp
  moreover from Cons.prems(2) b have "sorted_wrt (\<lambda>x y. c x \<ge> c y) ys" by simp
  ultimately have "xs = ys" using tails by (rule Cons.IH)
  with b \<open>x = y\<close> show ?case by simp
qed

lemma ranked_by_frequency_unique:
  assumes "ranked_by_frequency ks a" and "ranked_by_frequency ks b"
  shows "a = b"
proof (rule sorted_classes_unique [where c = "count_list ks"])
  from assms show "sorted_wrt (\<lambda>x y. count_list ks y \<le> count_list ks x) a"
    and "sorted_wrt (\<lambda>x y. count_list ks y \<le> count_list ks x) b"
    by (simp_all add: ranked_by_frequency_def)
  have sa: "set a = set ks" and sb: "set b = set ks"
    using assms by (simp_all add: ranked_by_frequency_def)
  have fa: "filter (\<lambda>x. count_list ks x = count_list ks k) a =
      filter (\<lambda>x. count_list ks x = count_list ks k) (first_seen ks)" if "k \<in> set ks" for k
    using assms(1) that unfolding ranked_by_frequency_def by blast
  have fb: "filter (\<lambda>x. count_list ks x = count_list ks k) b =
      filter (\<lambda>x. count_list ks x = count_list ks k) (first_seen ks)" if "k \<in> set ks" for k
    using assms(2) that unfolding ranked_by_frequency_def by blast
  fix n
  show "filter (\<lambda>x. count_list ks x = n) a = filter (\<lambda>x. count_list ks x = n) b"
  proof (cases "\<exists>k \<in> set ks. count_list ks k = n")
    case True
    then obtain k where k: "k \<in> set ks" and n: "count_list ks k = n" by blast
    from fa [OF k] fb [OF k] show ?thesis unfolding n by simp
  next
    case False
    then have "filter (\<lambda>x. count_list ks x = n) a = []"
      "filter (\<lambda>x. count_list ks x = n) b = []"
      unfolding filter_empty_conv sa sb by blast+
    then show ?thesis by simp
  qed
qed








section \<open>Exact arithmetic as an instance of double arithmetic\<close>

lemma exact_arith_simps:
  "fl_lit exact_arith x = x" "fadd exact_arith = (+)" "fsub exact_arith = (-)"
  "fmul exact_arith = (*)" "fdiv exact_arith = (/)" "fsum exact_arith = sum_list"
  "truediv exact_arith a b = Inr (real_of_int a / real_of_int b)"
  "fstdev exact_arith = stdev" "round2 exact_arith = py_round2"
  by (simp_all add: exact_arith_def)

lemma helpers_fp_exact:
  "total_weight_fp exact_arith = total_weight"
  "aggregate_sentiment_fp exact_arith = aggregate_sentiment"
  "reliability_fp exact_arith = reliability"
  "popularity_fp exact_arith reviews = Inr (popularity reviews)"
  "sentiment_desc_fp exact_arith = sentiment_desc"
  "generate_summary_fp exact_arith = generate_summary"
  "final_score_fp exact_arith = final_score_raw"
proof -
  show tw: "total_weight_fp exact_arith = total_weight"
    by (rule ext) (simp add: total_weight_fp_def total_weight_def exact_arith_simps)
  show "aggregate_sentiment_fp exact_arith = aggregate_sentiment"
    by (rule ext) (simp add: aggregate_sentiment_fp_def aggregate_sentiment_def tw exact_arith_simps
        total_weight_def)
  show "reliability_fp exact_arith = reliability"
    by (rule ext) (simp add: reliability_fp_def reliability_def exact_arith_simps)
  show "popularity_fp exact_arith reviews = Inr (popularity reviews)"
    by (simp add: popularity_fp_def popularity_def exact_arith_simps Let_def)
  show sd: "sentiment_desc_fp exact_arith = sentiment_desc"
    by (rule ext) (simp add: sentiment_desc_fp_def sentiment_desc_def exact_arith_simps)
  show "generate_summary_fp exact_arith = generate_summary"
    by (intro ext) (simp add: generate_summary_fp_def generate_summary_def sd split: option.split)
  show "final_score_fp exact_arith = final_score_raw"
    by (intro ext) (simp add: final_score_fp_def final_score_raw_def exact_arith_simps)
qed

lemma calculate_rating_fp_exact:
  "calculate_rating_fp exact_arith be name reviews = calculate_rating be name reviews"
  by (simp add: calculate_rating_fp_def calculate_rating_def helpers_fp_exact exact_arith_simps
      Let_def split: sum.splits prod.splits)

lemma calculate_rating_fp_result:
  assumes "reviews \<noteq> []" and "calculate_rating_fp ar be name reviews = Inr r"
  shows "\<exists>all_pros all_cons p q.
     aggregate_pros_cons [] [] (analyze_all be 0 (take 20 reviews)) = Inr (all_pros, all_cons)
     \<and> popularity_fp ar reviews = Inr p
     \<and> truediv ar (int (length reviews)) 15 = Inr q
     \<and> r = \<lparr>ai_rating =
             max 0 (min 100 (py_int (final_score_fp ar
               (aggregate_sentiment_fp ar (analyze_all be 0 (take 20 reviews)))
               (reliability_fp ar (map sentiment (analyze_all be 0 (take 20 reviews))))
               (fadd ar 0.5 (fmul ar (aggregate_sentiment_fp ar (analyze_all be 0 (take 20 reviews)))
                   (fl_lit ar 0.2)))
               p))),
           confidence =
             round2 ar (fadd ar (fmul ar (min 1.0 q) (fl_lit ar 0.6))
               (fmul ar (reliability_fp ar (map sentiment (analyze_all be 0 (take 20 reviews))))
                  (fl_lit ar 0.4))),
           sentiment_score =
             round2 ar (aggregate_sentiment_fp ar (analyze_all be 0 (take 20 reviews))),
           reliability_score =
             round2 ar (reliability_fp ar (map sentiment (analyze_all be 0 (take 20 reviews)))),
           value_score =
             round2 ar (fadd ar 0.5
               (fmul ar (aggregate_sentiment_fp ar (analyze_all be 0 (take 20 reviews)))
                  (fl_lit ar 0.2))),
           popularity_score = round2 ar p,
           sources_analyzed = int (length reviews),
           rating_pros = map (\<lambda>p. py_capitalize (fst p)) (take 5 (sorted_by_count_desc all_pros)),
           rating_cons = map (\<lambda>c. py_capitalize (fst c)) (take 5 (sorted_by_count_desc all_cons)),
           summary =
             generate_summary_fp ar be (length (analyze_all be 0 (take 20 reviews))) name
               (aggregate_sentiment_fp ar (analyze_all be 0 (take 20 reviews)))
               (map fst (take 5 (sorted_by_count_desc all_pros)))
               (map fst (take 5 (sorted_by_count_desc all_cons))) (int (length reviews))\<rparr>"
proof -
  from assms obtain all_pros all_cons where
    a: "aggregate_pros_cons [] [] (analyze_all be 0 (take 20 reviews)) = Inr (all_pros, all_cons)"
    by (simp add: calculate_rating_fp_def Let_def split: sum.splits prod.splits)
  with assms obtain p where p: "popularity_fp ar reviews = Inr p"
    by (simp add: calculate_rating_fp_def Let_def split: sum.splits)
  with assms a obtain q where q: "truediv ar (int (length reviews)) 15 = Inr q"
    by (simp add: calculate_rating_fp_def Let_def split: sum.splits)
  from assms a p q show ?thesis
    by (simp add: calculate_rating_fp_def Let_def)
qed

section \<open>Further concrete runs\<close>

lemma re_search_split:
  \<open>re_search ''{"sentiment": 1.0}'' = Some ''{"sentiment": 1.0}''\<close>
  \<open>re_search ''{"sentiment": -1.0}'' = Some ''{"sentiment": -1.0}''\<close>
  by (simp_all add: brace_match_def)

lemma analyze_review_split:
  "analyze_review split_backend 0 (example_review None) =
     \<lparr>sentiment = 1, pros = [], cons = [], credibility_weight = 0.6\<rparr>"
  "analyze_review split_backend (Suc 0) (example_review None) =
     \<lparr>sentiment = - 1, pros = [], cons = [], credibility_weight = 0.6\<rparr>"
  by (simp_all add: analyze_review_def analyze_body_def split_backend_def example_review_def
      re_search_split py_float_def slice3_def dict_get_def credibility_reddit
      del: re_search.simps)

lemma analyze_all_split:
  "analyze_all split_backend 0 (take 20 [example_review None, example_review None]) =
     [\<lparr>sentiment = 1, pros = [], cons = [], credibility_weight = 0.6\<rparr>,
      \<lparr>sentiment = - 1, pros = [], cons = [], credibility_weight = 0.6\<rparr>]"
  by (simp add: analyze_review_split)

lemma calculate_rating_split:
  "calculate_rating split_backend ''Widget'' [example_review None, example_review None] =
     Inr split_rating"
proof -
  have s: "aggregate_sentiment
     [\<lparr>sentiment = 1, pros = [], cons = [], credibility_weight = 0.6\<rparr>,
      \<lparr>sentiment = - 1, pros = [], cons = [], credibility_weight = 0.6\<rparr>] = 0"
    by (simp add: aggregate_sentiment_def total_weight_def)
  have "1 < sqrt (2 :: real)" by simp
  then have r: "reliability [1, - 1] = 0"
    by (simp add: reliability_def stdev_pm1)
  have p: "popularity [example_review None, example_review None] = 0"
    by (simp add: popularity_def or0_def example_review_def Let_def)
  have rd: "py_round2 (2 / 25) = 2 / 25"
    by (simp add: py_round2_def Let_def)
  have sm: "generate_summary split_backend i ''Widget'' 0 [] [] 2 =
     ''Based on 2 sources, users have mixed opinions about the Widget.''" for i
  proof -
    have "str_nat 2 = ''2''" by code_simp
    then show ?thesis
      by (simp add: generate_summary_def split_backend_def sentiment_desc_def py_str_def
          key_points_def del: str_nat.simps)
  qed
  show ?thesis
    unfolding calculate_rating_def Let_def analyze_all_split s
    by (simp add: r p sorted_by_count_desc_def final_score_raw_def py_int_def py_round2_values rd
        sm split_rating_def)
qed









section \<open>The scores of a returned rating\<close>






lemma opposite_pair_exact:
  assumes "reviews \<noteq> []" and "calculate_rating_fp exact_arith be name reviews = Inr r"
    and "map sentiment (analyze_all be 0 (take 20 reviews)) = [1, - 1]"
    and "map credibility_weight (analyze_all be 0 (take 20 reviews)) = [w, w]"
  shows "sentiment_score r = 0 \<and> reliability_score r = 0"
proof -
  from calculate_rating_fp_result [OF assms(1,2)]
  have s: "sentiment_score r =
      py_round2 (aggregate_sentiment (analyze_all be 0 (take 20 reviews)))"
    and l: "reliability_score r =
      py_round2 (reliability (map sentiment (analyze_all be 0 (take 20 reviews))))"
    by (auto simp: helpers_fp_exact exact_arith_simps)
  from assms(3,4) obtain a b where
    ab: "analyze_all be 0 (take 20 reviews) = [a, b]" "sentiment a = 1" "sentiment b = - 1"
      "credibility_weight a = w" "credibility_weight b = w"
    by (cases "analyze_all be 0 (take 20 reviews)") auto
  have "aggregate_sentiment [a, b] = 0"
    by (simp add: aggregate_sentiment_def total_weight_def ab)
  moreover have "1 < sqrt (2 :: real)" by simp
  then have "reliability [1, - 1] = 0" by (simp add: reliability_def stdev_pm1)
  moreover have "py_round2 0 = 0" by (simp add: py_round2_def)
  ultimately show ?thesis using s l assms(3) ab(1) by simp
qed

text \<open>
  Claim C4. The reliability score of a returned rating is, rounded to two decimals, 1
  minus the standard deviation of the analysed sentiments, floored at 0, when at least
  two reviews are analysed, and 0.5 when one is. With the library's standard deviation
  exact, it is 1 minus the square root of the sample variance. Two analyses of equal
  weight with sentiments 1 and -1 give, in exact arithmetic, the sentiment score 0 and
  the reliability score 0: their standard deviation is the square root of 2, above 1.
\<close>

theorem reliability_formula:
  assumes "reviews \<noteq> []" and "calculate_rating_fp ar be name reviews = Inr r"
  shows "length (analyze_all be 0 (take 20 reviews)) = min (length reviews) 20
     \<and> (2 \<le> length (analyze_all be 0 (take 20 reviews)) \<longrightarrow>
          reliability_score r =
            round2 ar (max 0 (fsub ar 1
              (fstdev ar (map sentiment (analyze_all be 0 (take 20 reviews)))))))
     \<and> (length (analyze_all be 0 (take 20 reviews)) < 2 \<longrightarrow>
          reliability_score r = round2 ar 0.5)
     \<and> (fstdev ar = stdev \<and> fsub ar = (-)
          \<and> 2 \<le> length (analyze_all be 0 (take 20 reviews)) \<longrightarrow>
          reliability_score r =
            round2 ar (max 0 (1 - sqrt
              (sum_list (map (\<lambda>x. (x - sum_list (map sentiment (analyze_all be 0 (take 20 reviews)))
                                      / real (length (analyze_all be 0 (take 20 reviews))))\<^sup>2)
                           (map sentiment (analyze_all be 0 (take 20 reviews))))
               / real (length (analyze_all be 0 (take 20 reviews)) - 1)))))
     \<and> (ar = exact_arith
          \<and> map sentiment (analyze_all be 0 (take 20 reviews)) = [1, - 1]
          \<and> (\<exists>w. map credibility_weight (analyze_all be 0 (take 20 reviews)) = [w, w]) \<longrightarrow>
          sentiment_score r = 0 \<and> reliability_score r = 0)
     \<and> stdev [1, - 1] = sqrt 2 \<and> 1 < sqrt (2 :: real)"
proof -
  from calculate_rating_fp_result [OF assms]
  have s: "reliability_score r =
      round2 ar (reliability_fp ar (map sentiment (analyze_all be 0 (take 20 reviews))))"
    by auto
  have g1: "length (analyze_all be 0 (take 20 reviews)) = min (length reviews) 20"
    by (simp add: length_analyze_all)
  have g2: "2 \<le> length (analyze_all be 0 (take 20 reviews)) \<longrightarrow>
          reliability_score r =
            round2 ar (max 0 (fsub ar 1
              (fstdev ar (map sentiment (analyze_all be 0 (take 20 reviews))))))"
    by (simp add: s reliability_fp_def)
  have g3: "length (analyze_all be 0 (take 20 reviews)) < 2 \<longrightarrow>
          reliability_score r = round2 ar 0.5"
    by (simp add: s reliability_fp_def)
  have g4: "fstdev ar = stdev \<and> fsub ar = (-)
          \<and> 2 \<le> length (analyze_all be 0 (take 20 reviews)) \<longrightarrow>
          reliability_score r =
            round2 ar (max 0 (1 - sqrt
              (sum_list (map (\<lambda>x. (x - sum_list (map sentiment (analyze_all be 0 (take 20 reviews)))
                                      / real (length (analyze_all be 0 (take 20 reviews))))\<^sup>2)
                           (map sentiment (analyze_all be 0 (take 20 reviews))))
               / real (length (analyze_all be 0 (take 20 reviews)) - 1))))"
    by (simp add: s reliability_fp_def stdev_def mean_def)
  have g5: "ar = exact_arith
          \<and> map sentiment (analyze_all be 0 (take 20 reviews)) = [1, - 1]
          \<and> (\<exists>w. map credibility_weight (analyze_all be 0 (take 20 reviews)) = [w, w]) \<longrightarrow>
          sentiment_score r = 0 \<and> reliability_score r = 0"
  proof (intro impI, elim conjE exE)
    fix w
    assume "ar = exact_arith" and m: "map sentiment (analyze_all be 0 (take 20 reviews)) = [1, - 1]"
      and w: "map credibility_weight (analyze_all be 0 (take 20 reviews)) = [w, w]"
    with assms(2) have "calculate_rating_fp exact_arith be name reviews = Inr r" by simp
    from opposite_pair_exact [OF assms(1) this m w]
    show "sentiment_score r = 0 \<and> reliability_score r = 0" .
  qed
  have g6: "stdev [1, - 1] = sqrt 2" by (rule stdev_pm1)
  have g7: "1 < sqrt (2 :: real)" by simp
  show ?thesis
    by (intro conjI) (fact g1 g2 g3 g4 g5 g6 g7)+
qed

theorem reliability_formula_witness:
  "[example_review None, example_review None] \<noteq> []
   \<and> calculate_rating_fp exact_arith split_backend ''Widget''
        [example_review None, example_review None] = Inr split_rating
   \<and> map sentiment (analyze_all split_backend 0
        (take 20 [example_review None, example_review None])) = [1, - 1]
   \<and> sentiment_score split_rating = 0 \<and> reliability_score split_rating = 0
   \<and> 2 \<le> length (analyze_all split_backend 0
        (take 20 [example_review None, example_review None]))
   \<and> reliability_score split_rating =
       round2 exact_arith (max 0 (fsub exact_arith 1 (fstdev exact_arith
         (map sentiment (analyze_all split_backend 0
            (take 20 [example_review None, example_review None]))))))"
proof -
  have ne: "[example_review None, example_review None] \<noteq> []" by simp
  have ok: "calculate_rating_fp exact_arith split_backend ''Widget''
        [example_review None, example_review None] = Inr split_rating"
    by (simp add: calculate_rating_fp_exact calculate_rating_split)
  have m: "map sentiment (analyze_all split_backend 0
        (take 20 [example_review None, example_review None])) = [1, - 1]"
    and w: "\<exists>w. map credibility_weight (analyze_all split_backend 0
        (take 20 [example_review None, example_review None])) = [w, w]"
    and l: "2 \<le> length (analyze_all split_backend 0
        (take 20 [example_review None, example_review None]))"
    unfolding analyze_all_split by (simp_all add: exI [of _ "3 / 5"])
  from reliability_formula [OF ne ok] m w l ne ok show ?thesis by blast
qed



section \<open>The output lists of a returned rating\<close>








end
